theory Spec2Isabelle
  imports Complex_Main
begin

section \<open>Arrays, dictionaries and errors\<close>

text \<open>
  The notebook \<^verbatim>\<open>hypersensitive\<close> defines the component \<^verbatim>\<open>HyperSensitiveODE\<close>
  through the array library and the component interface of the optimisation framework.
  A one-dimensional array is a list of numbers, and a number is an exact real: rounding of
  the machine's floating point is not modelled. The vectors \<^verbatim>\<open>inputs\<close> and
  \<^verbatim>\<open>outputs\<close> are read and written by name, so they are maps from names to arrays;
  reading a name that is absent raises \<^verbatim>\<open>KeyError\<close>, and combining two arrays whose
  shapes cannot be broadcast raises \<^verbatim>\<open>ValueError\<close>.
\<close>

datatype error = KeyError string | ValueError | OptionNotSet string

type_synonym array = "real list"

type_synonym vec_dict = "string \<rightharpoonup> array"

text \<open>\<^verbatim>\<open>d[k]\<close> on a dictionary.\<close>

definition getitem :: "(string \<rightharpoonup> 'v) \<Rightarrow> string \<Rightarrow> error + 'v" where
  "getitem d k = (case d k of None \<Rightarrow> Inl (KeyError k) | Some v \<Rightarrow> Inr v)"

text \<open>
  A binary operator on two one-dimensional arrays: elementwise on equal lengths, an array of
  length one is stretched to the other's length, and any other pair of lengths is an error.
\<close>

definition broadcast :: "(real \<Rightarrow> real \<Rightarrow> real) \<Rightarrow> array \<Rightarrow> array \<Rightarrow> error + array" where
  "broadcast f xs ys =
     (if length xs = length ys then Inr (map2 f xs ys)
      else if length xs = 1 then Inr (map (f (hd xs)) ys)
      else if length ys = 1 then Inr (map (\<lambda>x. f x (hd ys)) xs)
      else Inl ValueError)"

text \<open>\<^verbatim>\<open>-x\<close>, \<^verbatim>\<open>x + y\<close>, \<^verbatim>\<open>x ** n\<close> and \<^verbatim>\<open>x / c\<close> on arrays.\<close>

definition np_neg :: "array \<Rightarrow> array" where
  "np_neg xs = map uminus xs"

definition np_add :: "array \<Rightarrow> array \<Rightarrow> error + array" where
  "np_add xs ys = broadcast (+) xs ys"

definition np_pow :: "array \<Rightarrow> nat \<Rightarrow> array" where
  "np_pow xs n = map (\<lambda>x. x ^ n) xs"

definition np_div :: "array \<Rightarrow> real \<Rightarrow> array" where
  "np_div xs c = map (\<lambda>x. x / c) xs"

section \<open>HyperSensitiveODE\<close>

text \<open>
  \<^verbatim>\<open>compute(self, inputs, outputs)\<close>: reads \<^verbatim>\<open>x\<close> and \<^verbatim>\<open>u\<close>, then stores
  \<^verbatim>\<open>-x + u\<close> under \<^verbatim>\<open>x_dot\<close> and \<^verbatim>\<open>(x ** 2 + u ** 2) / 2\<close> under \<^verbatim>\<open>L\<close>.
  The updated \<^verbatim>\<open>outputs\<close> is returned; an exception is the left injection.
  The framework hands \<^verbatim>\<open>compute\<close> arrays of the declared length \<^verbatim>\<open>num_nodes\<close> and
  copies what is stored into an output of that length; on such arrays the copy is the
  stored array itself, which is what the map update says.
\<close>

definition compute :: "vec_dict \<Rightarrow> vec_dict \<Rightarrow> error + vec_dict" where
  "compute inputs outputs =
     (case getitem inputs ''x'' of Inl e \<Rightarrow> Inl e | Inr x \<Rightarrow>
     (case getitem inputs ''u'' of Inl e \<Rightarrow> Inl e | Inr u \<Rightarrow>
     (case np_add (np_neg x) u of Inl e \<Rightarrow> Inl e | Inr x_dot \<Rightarrow>
     (let outputs = outputs(''x_dot'' \<mapsto> x_dot) in
     (case np_add (np_pow x 2) (np_pow u 2) of Inl e \<Rightarrow> Inl e | Inr s \<Rightarrow>
        Inr (outputs(''L'' \<mapsto> np_div s 2)))))))"

text \<open>
  \<^verbatim>\<open>compute_partials(self, inputs, jacobian)\<close>: reads \<^verbatim>\<open>x\<close> and \<^verbatim>\<open>u\<close>, then
  stores \<^verbatim>\<open>x\<close> under the key \<^verbatim>\<open>('L', 'x')\<close> and \<^verbatim>\<open>u\<close> under \<^verbatim>\<open>('L', 'u')\<close>.
\<close>

type_synonym jacobian = "string \<times> string \<rightharpoonup> array"

definition compute_partials :: "vec_dict \<Rightarrow> jacobian \<Rightarrow> error + jacobian" where
  "compute_partials inputs jac =
     (case getitem inputs ''x'' of Inl e \<Rightarrow> Inl e | Inr x \<Rightarrow>
     (case getitem inputs ''u'' of Inl e \<Rightarrow> Inl e | Inr u \<Rightarrow>
        Inr (jac((''L'', ''x'') \<mapsto> x, (''L'', ''u'') \<mapsto> u))))"

subsection \<open>Declarations made by setup\<close>

text \<open>
  What \<^verbatim>\<open>initialize\<close> and \<^verbatim>\<open>setup\<close> record in the component: the option
  \<^verbatim>\<open>num_nodes\<close> (an integer, unset until the caller gives it), the declared inputs and
  outputs with their initial values, and the declared partial derivatives with their
  sparsity pattern and, where given, their constant value.
\<close>

record variable =
  v_name :: string
  v_val :: array
  v_desc :: string
  v_units :: "string option"

record partials =
  p_of :: string
  p_wrt :: string
  p_rows :: "nat list"
  p_cols :: "nat list"
  p_val :: "real option"

record component =
  num_nodes :: "int option"
  var_inputs :: "variable list"
  var_outputs :: "variable list"
  var_partials :: "partials list"

definition new_component :: "int option \<Rightarrow> component" where
  "new_component nn = \<lparr>num_nodes = nn, var_inputs = [], var_outputs = [], var_partials = []\<rparr>"

text \<open>\<^verbatim>\<open>np.zeros(n)\<close> refuses a negative length; \<^verbatim>\<open>np.arange(n)\<close> is empty there.\<close>

definition np_zeros :: "int \<Rightarrow> error + array" where
  "np_zeros n = (if n < 0 then Inl ValueError else Inr (replicate (nat n) 0))"

definition np_arange :: "int \<Rightarrow> nat list" where
  "np_arange n = [0..<nat n]"

definition add_input :: "string \<Rightarrow> array \<Rightarrow> string \<Rightarrow> component \<Rightarrow> component" where
  "add_input nm v d c =
     c\<lparr>var_inputs := var_inputs c @ [\<lparr>v_name = nm, v_val = v, v_desc = d, v_units = None\<rparr>]\<rparr>"

definition add_output :: "string \<Rightarrow> array \<Rightarrow> string \<Rightarrow> string \<Rightarrow> component \<Rightarrow> component" where
  "add_output nm v d un c =
     c\<lparr>var_outputs := var_outputs c @ [\<lparr>v_name = nm, v_val = v, v_desc = d, v_units = Some un\<rparr>]\<rparr>"

definition declare_partials ::
  "string \<Rightarrow> string \<Rightarrow> nat list \<Rightarrow> nat list \<Rightarrow> real option \<Rightarrow> component \<Rightarrow> component" where
  "declare_partials f w rs cs v c =
     c\<lparr>var_partials := var_partials c @ [\<lparr>p_of = f, p_wrt = w, p_rows = rs, p_cols = cs, p_val = v\<rparr>]\<rparr>"

definition setup_ode :: "component \<Rightarrow> error + component" where
  "setup_ode self =
     (case num_nodes self of None \<Rightarrow> Inl (OptionNotSet ''num_nodes'') | Some nn \<Rightarrow>
     (case np_zeros nn of Inl e \<Rightarrow> Inl e | Inr z \<Rightarrow>
        Inr (declare_partials ''L'' ''u'' (np_arange nn) (np_arange nn) None
            (declare_partials ''L'' ''x'' (np_arange nn) (np_arange nn) None
            (declare_partials ''x_dot'' ''u'' (np_arange nn) (np_arange nn) (Some 1)
            (declare_partials ''x_dot'' ''x'' (np_arange nn) (np_arange nn) (Some (- 1))
            (add_output ''L'' z ''Lagrangian'' ''1/s''
            (add_output ''x_dot'' z ''state rate'' ''1/s''
            (add_input ''u'' z ''control''
            (add_input ''xL'' z ''cost_state''
            (add_input ''x'' z ''state'' self)))))))))))"

text \<open>
  The framework keeps one array of values per declared partial derivative, one value for
  each (row, column) pair of the declared pattern: the constant where \<^verbatim>\<open>val\<close> was given
  and zero otherwise. A later declaration of the same pair replaces an earlier one.
\<close>

definition declared_jacobian :: "partials list \<Rightarrow> jacobian" where
  "declared_jacobian ps =
     foldl (\<lambda>jac p. jac((p_of p, p_wrt p) \<mapsto>
              replicate (length (p_rows p)) (case p_val p of Some v \<Rightarrow> v | None \<Rightarrow> 0)))
       Map.empty ps"

definition find_partials :: "partials list \<Rightarrow> string \<Rightarrow> string \<Rightarrow> partials option" where
  "find_partials ps f w = find (\<lambda>p. p_of p = f \<and> p_wrt p = w) (rev ps)"

text \<open>
  The entry in row \<open>i\<close> and column \<open>j\<close> of the block \<open>(f, w)\<close> of the Jacobian that the
  declared pattern and the stored values denote: the sum of the values stored for the pair
  \<open>(i, j)\<close>, and zero for a pair outside the pattern or a block never declared.
\<close>

definition jac_entry :: "partials list \<Rightarrow> jacobian \<Rightarrow> string \<Rightarrow> string \<Rightarrow> nat \<Rightarrow> nat \<Rightarrow> real" where
  "jac_entry ps jac f w i j =
     (case find_partials ps f w of None \<Rightarrow> 0 | Some p \<Rightarrow>
     (case jac (f, w) of None \<Rightarrow> 0 | Some vs \<Rightarrow>
        sum_list (map (\<lambda>(r, c, v). if r = i \<and> c = j then v else 0)
                    (zip (p_rows p) (zip (p_cols p) vs)))))"

text \<open>
  Entry \<open>i\<close> of the array that \<^verbatim>\<open>compute\<close> stores under a name, as a function of the
  inputs (zero where \<^verbatim>\<open>compute\<close> raises or stores nothing under the name).
\<close>

definition output_at :: "string \<Rightarrow> nat \<Rightarrow> vec_dict \<Rightarrow> real" where
  "output_at nm i inputs =
     (case compute inputs Map.empty of Inl e \<Rightarrow> 0 | Inr outs \<Rightarrow>
     (case outs nm of None \<Rightarrow> 0 | Some ys \<Rightarrow> ys ! i))"

text \<open>Restriction of every array of a dictionary to the indices in a set.\<close>

definition restrict_dict :: "nat set \<Rightarrow> vec_dict \<Rightarrow> vec_dict" where
  "restrict_dict I d = (\<lambda>k. map_option (\<lambda>a. nths a I) (d k))"

section \<open>The analytic reference solution\<close>

text \<open>
  The global \<^verbatim>\<open>tf\<close> and the function \<^verbatim>\<open>solution()\<close> of the notebook, which returns
  the triple \<^verbatim>\<open>(ui, uf, J)\<close>.
\<close>

definition tf :: real where
  "tf = 10"

definition solution :: "real \<times> real \<times> real" where
  "solution =
     (let sqrt_two = sqrt 2;
          val = sqrt_two * tf;
          c1 = (1.5 * exp (- val) - 1) / (exp (- val) - exp val);
          c2 = (1 - 1.5 * exp val) / (exp (- val) - exp val);
          ui = c1 * (1 + sqrt_two) + c2 * (1 - sqrt_two);
          uf = c1 * (1 + sqrt_two) * exp val + c2 * (1 - sqrt_two) * exp (- val);
          J = 0.5 * (c1 ^ 2 * (1 + sqrt_two) * exp (2 * val)
                     + c2 ^ 2 * (1 - sqrt_two) * exp (- 2 * val)
                     - (1 + sqrt_two) * c1 ^ 2 - (1 - sqrt_two) * c2 ^ 2)
      in (ui, uf, J))"

text \<open>
  The closed form the notebook states for the optimal trajectory, written from its
  formulas: the two coefficients and the state \<open>x*(t)\<close>.
\<close>

definition c1_star :: real where
  "c1_star = (1.5 * exp (- sqrt 2 * tf) - 1) / (exp (- sqrt 2 * tf) - exp (sqrt 2 * tf))"

definition c2_star :: real where
  "c2_star = (1 - 1.5 * exp (sqrt 2 * tf)) / (exp (- sqrt 2 * tf) - exp (sqrt 2 * tf))"

definition x_star :: "real \<Rightarrow> real" where
  "x_star t = c1_star * exp (sqrt 2 * t) + c2_star * exp (- sqrt 2 * t)"

text \<open>
  The derivative of \<open>x*\<close> and a primitive of the integrand \<open>(x*\<^sup>2 + u*\<^sup>2) / 2\<close> of the
  cost, where \<open>u* = x*' + x*\<close> with \<open>x*'\<close> the derivative of \<open>x*\<close>. Both are stated here
  in closed form and proved below to be what their names say.
\<close>

definition x_star_dot :: "real \<Rightarrow> real" where
  "x_star_dot t = sqrt 2 * c1_star * exp (sqrt 2 * t) - sqrt 2 * c2_star * exp (- sqrt 2 * t)"

definition cost_primitive :: "real \<Rightarrow> real" where
  "cost_primitive t =
     (c1_star\<^sup>2 * (1 + sqrt 2) * exp (2 * sqrt 2 * t)
      + c2_star\<^sup>2 * (1 - sqrt 2) * exp (- 2 * sqrt 2 * t)) / 2"

text \<open>
  The Riemann sum of a function over the interval from \<open>a\<close> to \<open>b\<close>, cut into \<open>n\<close> pieces
  of equal width and sampled at the left end of each piece.
\<close>

definition riemann_sum :: "(real \<Rightarrow> real) \<Rightarrow> real \<Rightarrow> real \<Rightarrow> nat \<Rightarrow> real" where
  "riemann_sum g a b n = (\<Sum>k<n. g (a + real k * ((b - a) / real n))) * ((b - a) / real n)"

section \<open>The table of contents\<close>

text \<open>
  The file \<^verbatim>\<open>docs/_toc.yml\<close> is data: a mapping with the keys \<^verbatim>\<open>format\<close>,
  \<^verbatim>\<open>root\<close> and \<^verbatim>\<open>parts\<close>. It is embedded as the value a reader of the file obtains:
  a scalar, a sequence, or a mapping that keeps the order of its keys.
\<close>

datatype yaml = YStr string | YSeq "yaml list" | YMap "(string \<times> yaml) list"

definition toc :: yaml where
  "toc = YMap
     [(''format'', YStr ''jb-book''),
      (''root'', YStr ''index''),
      (''parts'', YSeq
        [YMap [(''caption'', YStr ''Installation''),
               (''chapters'', YSeq
                 [YMap [(''file'', YStr ''installation'')]])],
         YMap [(''caption'', YStr ''Getting Started''),
               (''chapters'', YSeq
                 [YMap [(''file'', YStr ''getting_started/collocation'')],
                  YMap [(''file'', YStr ''getting_started/defining_odes'')],
                  YMap [(''file'', YStr ''getting_started/optimal_control'')],
                  YMap [(''file'', YStr ''getting_started/intro_to_dymos/intro_ivp'')],
                  YMap [(''file'', YStr ''getting_started/intro_to_dymos/intro_segments'')]])],
         YMap [(''caption'', YStr ''Examples and Tutorials''),
               (''chapters'', YSeq
                 [YMap [(''file'', YStr ''examples/examples''),
                        (''sections'', YSeq
                          [YMap [(''file'', YStr ''examples/brachistochrone/brachistochrone'')],
                           YMap [(''file'', YStr ''examples/vanderpol/vanderpol'')],
                           YMap [(''file'', YStr ''examples/balanced_field/balanced_field'')],
                           YMap [(''file'', YStr ''examples/commercial_aircraft/commercial_aircraft'')],
                           YMap [(''file'', YStr ''examples/double_integrator/double_integrator'')],
                           YMap [(''file'', YStr ''examples/hypersensitive/hypersensitive'')],
                           YMap [(''file'', YStr ''examples/finite_burn_orbit_raise/finite_burn_orbit_raise'')],
                           YMap [(''file'', YStr ''examples/length_constrained_brachistochrone/length_constrained_brachistochrone'')],
                           YMap [(''file'', YStr ''examples/min_time_climb/min_time_climb'')],
                           YMap [(''file'', YStr ''examples/multi_phase_cannonball/multi_phase_cannonball'')],
                           YMap [(''file'', YStr ''examples/multibranch_trajectory/multibranch_trajectory'')],
                           YMap [(''file'', YStr ''examples/racecar/racecar'')],
                           YMap [(''file'', YStr ''examples/reentry/reentry'')],
                           YMap [(''file'', YStr ''examples/ssto_earth/ssto_earth'')],
                           YMap [(''file'', YStr ''examples/ssto_moon_linear_tangent/ssto_moon_linear_tangent'')],
                           YMap [(''file'', YStr ''examples/ssto_moon_polynomial_controls/ssto_moon_polynomial_controls'')],
                           YMap [(''file'', YStr ''examples/water_rocket/water_rocket'')]])]])],
         YMap [(''caption'', YStr ''Feature Reference''),
               (''chapters'', YSeq
                 [YMap [(''file'', YStr ''features/phases/phases_list''),
                        (''sections'', YSeq
                          [YMap [(''file'', YStr ''features/phases/phases'')],
                           YMap [(''file'', YStr ''features/phases/segments'')],
                           YMap [(''file'', YStr ''features/phases/variables'')],
                           YMap [(''file'', YStr ''features/phases/constraints'')],
                           YMap [(''file'', YStr ''features/phases/objective'')],
                           YMap [(''file'', YStr ''features/phases/timeseries'')]])],
                  YMap [(''file'', YStr ''features/trajectories/trajectories'')],
                  YMap [(''file'', YStr ''features/exploiting_sparsity'')],
                  YMap [(''file'', YStr ''features/plotting'')]])],
         YMap [(''caption'', YStr ''Frequently Asked Questions''),
               (''chapters'', YSeq
                 [YMap [(''file'', YStr ''faq/faq''),
                        (''sections'', YSeq
                          [YMap [(''file'', YStr ''faq/add_ode_output_to_timeseries'')],
                           YMap [(''file'', YStr ''faq/connect_scalar_parameters_to_ode'')],
                           YMap [(''file'', YStr ''faq/upstream_analysis'')],
                           YMap [(''file'', YStr ''faq/downstream_analysis'')],
                           YMap [(''file'', YStr ''faq/tandem_phases'')],
                           YMap [(''file'', YStr ''faq/use_partial_coloring'')],
                           YMap [(''file'', YStr ''faq/debugging'')]])]])],
         YMap [(''caption'', YStr ''Dymos API Reference''),
               (''chapters'', YSeq
                 [YMap [(''file'', YStr ''api/api''),
                        (''sections'', YSeq
                          [YMap [(''file'', YStr ''api/run_problem'')],
                           YMap [(''file'', YStr ''api/phase_api'')],
                           YMap [(''file'', YStr ''api/trajectory_api'')]])]])],
         YMap [(''caption'', YStr ''Contributing''),
               (''chapters'', YSeq
                 [YMap [(''file'', YStr ''contributing/contributing'')]])]])]"

text \<open>Reading a key of a mapping, the items of a sequence and the text of a scalar.\<close>

fun yaml_get :: "string \<Rightarrow> yaml \<Rightarrow> yaml option" where
  "yaml_get k (YMap kvs) = map_of kvs k"
| "yaml_get k (YStr s) = None"
| "yaml_get k (YSeq ys) = None"

fun yaml_items :: "yaml option \<Rightarrow> yaml list" where
  "yaml_items (Some (YSeq ys)) = ys"
| "yaml_items (Some (YStr s)) = []"
| "yaml_items (Some (YMap kvs)) = []"
| "yaml_items None = []"

fun yaml_str :: "yaml option \<Rightarrow> string" where
  "yaml_str (Some (YStr s)) = s"
| "yaml_str (Some (YSeq ys)) = []"
| "yaml_str (Some (YMap kvs)) = []"
| "yaml_str None = []"

definition toc_parts :: "yaml list" where
  "toc_parts = yaml_items (yaml_get ''parts'' toc)"

definition toc_captions :: "string list" where
  "toc_captions = map (\<lambda>p. yaml_str (yaml_get ''caption'' p)) toc_parts"

text \<open>
  A section entry is a mapping with the single key \<^verbatim>\<open>file\<close>; a chapter entry is a
  \<^verbatim>\<open>file\<close>, alone or followed by \<^verbatim>\<open>sections\<close>, a sequence of section entries; a part
  is a \<^verbatim>\<open>caption\<close> followed by \<^verbatim>\<open>chapters\<close>, a sequence of chapter entries.
\<close>

fun is_file_ref :: "yaml \<Rightarrow> bool" where
  "is_file_ref (YMap [(k, YStr f)]) = (k = ''file'')"
| "is_file_ref y = False"

fun is_chapter :: "yaml \<Rightarrow> bool" where
  "is_chapter (YMap [(k, YStr f)]) = (k = ''file'')"
| "is_chapter (YMap [(k, YStr f), (k', YSeq ss)]) =
     (k = ''file'' \<and> k' = ''sections'' \<and> list_all is_file_ref ss)"
| "is_chapter y = False"

fun is_part :: "yaml \<Rightarrow> bool" where
  "is_part (YMap [(k, YStr c), (k', YSeq chs)]) =
     (k = ''caption'' \<and> k' = ''chapters'' \<and> list_all is_chapter chs)"
| "is_part y = False"

section \<open>Helper facts about the array operations\<close>

lemma broadcast_same_length:
  "length xs = length ys \<Longrightarrow> broadcast f xs ys = Inr (map2 f xs ys)"
  by (simp add: broadcast_def)

lemma compute_equal_length:
  assumes "inputs ''x'' = Some x" and "inputs ''u'' = Some u" and "length x = length u"
  shows "compute inputs outputs =
           Inr (outputs(''x_dot'' \<mapsto> map2 (+) (map uminus x) u,
                        ''L'' \<mapsto> map (\<lambda>s. s / 2) (map2 (+) (map (\<lambda>a. a ^ 2) x) (map (\<lambda>a. a ^ 2) u))))"
  using assms
  by (simp add: compute_def getitem_def np_add_def np_neg_def np_pow_def np_div_def
      broadcast_same_length Let_def)

lemma compute_partials_ok:
  assumes "inputs ''x'' = Some x" and "inputs ''u'' = Some u"
  shows "compute_partials inputs jac = Inr (jac((''L'', ''x'') \<mapsto> x, (''L'', ''u'') \<mapsto> u))"
  using assms by (simp add: compute_partials_def getitem_def)

lemma output_at_x_dot:
  assumes "inputs ''x'' = Some x" and "inputs ''u'' = Some u" and "length x = length u"
    and "i < length x"
  shows "output_at ''x_dot'' i inputs = - (x ! i) + u ! i"
  using assms by (simp add: output_at_def compute_equal_length)

lemma output_at_L:
  assumes "inputs ''x'' = Some x" and "inputs ''u'' = Some u" and "length x = length u"
    and "i < length x"
  shows "output_at ''L'' i inputs = ((x ! i)\<^sup>2 + (u ! i)\<^sup>2) / 2"
  using assms by (simp add: output_at_def compute_equal_length)

lemma nths_zip:
  "length xs = length ys \<Longrightarrow> nths (zip xs ys) I = zip (nths xs I) (nths ys I)"
proof (induction xs ys arbitrary: I rule: list_induct2)
  case Nil
  then show ?case by simp
next
  case (Cons x xs y ys)
  then show ?case by (simp add: nths_Cons)
qed

lemma length_nths_eq:
  "length xs = length ys \<Longrightarrow> length (nths xs I) = length (nths ys I)"
  by (simp add: length_nths)

section \<open>Helper facts about the declarations\<close>

lemma setup_ode_partials:
  "setup_ode (new_component (Some nn)) = Inr c \<Longrightarrow>
   var_partials c = 
     [\<lparr>p_of = ''x_dot'', p_wrt = ''x'', p_rows = np_arange nn, p_cols = np_arange nn, p_val = Some (- 1)\<rparr>,
      \<lparr>p_of = ''x_dot'', p_wrt = ''u'', p_rows = np_arange nn, p_cols = np_arange nn, p_val = Some 1\<rparr>,
      \<lparr>p_of = ''L'', p_wrt = ''x'', p_rows = np_arange nn, p_cols = np_arange nn, p_val = None\<rparr>,
      \<lparr>p_of = ''L'', p_wrt = ''u'', p_rows = np_arange nn, p_cols = np_arange nn, p_val = None\<rparr>]"
  by (auto simp: setup_ode_def new_component_def declare_partials_def add_input_def add_output_def split: sum.splits)

lemma setup_ode_ok: "0 \<le> nn \<Longrightarrow> \<exists>c. setup_ode (new_component (Some nn)) = Inr c"
  by (simp add: setup_ode_def new_component_def np_zeros_def)

lemma setup_ode_jacobian:
  "setup_ode (new_component (Some nn)) = Inr c \<Longrightarrow>
   declared_jacobian (var_partials c) = 
     [(''x_dot'', ''x'') \<mapsto> replicate (nat nn) (- 1), (''x_dot'', ''u'') \<mapsto> replicate (nat nn) 1,
      (''L'', ''x'') \<mapsto> replicate (nat nn) 0, (''L'', ''u'') \<mapsto> replicate (nat nn) 0]"
  by (simp add: setup_ode_partials declared_jacobian_def np_arange_def)

lemma setup_ode_find:
  assumes "setup_ode (new_component (Some nn)) = Inr c"
  shows "find_partials (var_partials c) ''x_dot'' ''x'' =
           Some \<lparr>p_of = ''x_dot'', p_wrt = ''x'', p_rows = np_arange nn, p_cols = np_arange nn, p_val = Some (- 1)\<rparr>"
    and "find_partials (var_partials c) ''x_dot'' ''u'' =
           Some \<lparr>p_of = ''x_dot'', p_wrt = ''u'', p_rows = np_arange nn, p_cols = np_arange nn, p_val = Some 1\<rparr>"
    and "find_partials (var_partials c) ''L'' ''x'' =
           Some \<lparr>p_of = ''L'', p_wrt = ''x'', p_rows = np_arange nn, p_cols = np_arange nn, p_val = None\<rparr>"
    and "find_partials (var_partials c) ''L'' ''u'' =
           Some \<lparr>p_of = ''L'', p_wrt = ''u'', p_rows = np_arange nn, p_cols = np_arange nn, p_val = None\<rparr>"
  by (simp_all add: setup_ode_partials [OF assms] find_partials_def)

lemma zip_diag:
  "length vs = n \<Longrightarrow> zip [0..<n] (zip [0..<n] vs) = map (\<lambda>k. (k, k, vs ! k)) [0..<n]"
  by (rule nth_equalityI) auto

lemma sum_list_diag:
  fixes vs :: "real list"
  assumes "length vs = n" and "i < n" and "j < n"
  shows "sum_list (map (\<lambda>(r, c, v). if r = i \<and> c = j then v else 0) (zip [0..<n] (zip [0..<n] vs)))
         = (if i = j then vs ! i else 0)"
proof -
  have "sum_list (map (\<lambda>(r, c, v). if r = i \<and> c = j then v else 0) (zip [0..<n] (zip [0..<n] vs)))
        = sum_list (map (\<lambda>k. if k = i \<and> k = j then vs ! k else 0) [0..<n])"
    by (simp add: zip_diag [OF assms(1)] comp_def)
  also have "\<dots> = (\<Sum>k\<in>{0..<n}. if k = i \<and> k = j then vs ! k else 0)"
    by (simp add: interv_sum_list_conv_sum_set_nat)
  also have "\<dots> = (if i = j then vs ! i else 0)"
  proof (cases "i = j")
    case True
    then have "(\<Sum>k\<in>{0..<n}. if k = i \<and> k = j then vs ! k else 0)
               = (\<Sum>k\<in>{0..<n}. if k = i then vs ! k else 0)"
      by simp
    also have "\<dots> = vs ! i" using assms(2) by simp
    finally show ?thesis using True by simp
  next
    case False
    then have "(\<Sum>k\<in>{0..<n}. if k = i \<and> k = j then vs ! k else 0) = (\<Sum>k\<in>{0..<n}. 0::real)"
      by (intro sum.cong) auto
    then show ?thesis using False by simp
  qed
  finally show ?thesis .
qed

lemma setup_ode_entries:
  assumes "setup_ode (new_component (Some nn)) = Inr c"
    and "length x = nat nn" and "length u = nat nn" and "i < nat nn" and "j < nat nn"
    and "jac = (declared_jacobian (var_partials c))((''L'', ''x'') \<mapsto> x, (''L'', ''u'') \<mapsto> u)"
  shows "jac_entry (var_partials c) jac ''x_dot'' ''x'' i j = (if i = j then - 1 else 0)"
    and "jac_entry (var_partials c) jac ''x_dot'' ''u'' i j = (if i = j then 1 else 0)"
    and "jac_entry (var_partials c) jac ''L'' ''x'' i j = (if i = j then x ! i else 0)"
    and "jac_entry (var_partials c) jac ''L'' ''u'' i j = (if i = j then u ! i else 0)"
proof -
  note f = setup_ode_find [OF assms(1)]
  have j: "jac (''x_dot'', ''x'') = Some (replicate (nat nn) (- 1))"
    "jac (''x_dot'', ''u'') = Some (replicate (nat nn) 1)"
    "jac (''L'', ''x'') = Some x" "jac (''L'', ''u'') = Some u"
    by (simp_all add: assms(6) setup_ode_jacobian [OF assms(1)])
  show "jac_entry (var_partials c) jac ''x_dot'' ''x'' i j = (if i = j then - 1 else 0)"
    using f(1) j(1) assms(2-5) by (simp add: jac_entry_def sum_list_diag np_arange_def)
  show "jac_entry (var_partials c) jac ''x_dot'' ''u'' i j = (if i = j then 1 else 0)"
    using f(2) j(2) assms(2-5) by (simp add: jac_entry_def sum_list_diag np_arange_def)
  show "jac_entry (var_partials c) jac ''L'' ''x'' i j = (if i = j then x ! i else 0)"
    using f(3) j(3) assms(2-5) by (simp add: jac_entry_def sum_list_diag np_arange_def)
  show "jac_entry (var_partials c) jac ''L'' ''u'' i j = (if i = j then u ! i else 0)"
    using f(4) j(4) assms(2-5) by (simp add: jac_entry_def sum_list_diag np_arange_def)
qed

section \<open>Helper facts about derivatives\<close>

lemma deriv_x_dot_x:
  assumes "inputs ''u'' = Some u" and "length x = length u" and "i < length x" and "j < length x"
  shows "((\<lambda>t. output_at ''x_dot'' i (inputs(''x'' \<mapsto> x[j := t]))) has_real_derivative
           (if i = j then - 1 else 0)) (at a)"
proof -
  have eq: "(\<lambda>t. output_at ''x_dot'' i (inputs(''x'' \<mapsto> x[j := t])))
            = (\<lambda>t. - (if i = j then t else x ! i) + u ! i)"
    using assms by (auto simp: fun_eq_iff output_at_x_dot nth_list_update)
  show ?thesis unfolding eq by (auto intro!: derivative_eq_intros)
qed

lemma deriv_x_dot_u:
  assumes "inputs ''x'' = Some x" and "length x = length u" and "i < length x" and "j < length x"
  shows "((\<lambda>t. output_at ''x_dot'' i (inputs(''u'' \<mapsto> u[j := t]))) has_real_derivative
           (if i = j then 1 else 0)) (at a)"
proof -
  have eq: "(\<lambda>t. output_at ''x_dot'' i (inputs(''u'' \<mapsto> u[j := t])))
            = (\<lambda>t. - (x ! i) + (if i = j then t else u ! i))"
    using assms by (auto simp: fun_eq_iff output_at_x_dot nth_list_update)
  show ?thesis unfolding eq by (auto intro!: derivative_eq_intros)
qed

lemma deriv_L_x:
  assumes "inputs ''u'' = Some u" and "length x = length u" and "i < length x" and "j < length x"
  shows "((\<lambda>t. output_at ''L'' i (inputs(''x'' \<mapsto> x[j := t]))) has_real_derivative
           (if i = j then a else 0)) (at a)"
proof -
  have eq: "(\<lambda>t. output_at ''L'' i (inputs(''x'' \<mapsto> x[j := t])))
            = (\<lambda>t. ((if i = j then t else x ! i)\<^sup>2 + (u ! i)\<^sup>2) / 2)"
    using assms by (auto simp: fun_eq_iff output_at_L nth_list_update)
  show ?thesis unfolding eq by (auto intro!: derivative_eq_intros)
qed

lemma deriv_L_u:
  assumes "inputs ''x'' = Some x" and "length x = length u" and "i < length x" and "j < length x"
  shows "((\<lambda>t. output_at ''L'' i (inputs(''u'' \<mapsto> u[j := t]))) has_real_derivative
           (if i = j then a else 0)) (at a)"
proof -
  have eq: "(\<lambda>t. output_at ''L'' i (inputs(''u'' \<mapsto> u[j := t])))
            = (\<lambda>t. ((x ! i)\<^sup>2 + (if i = j then t else u ! i)\<^sup>2) / 2)"
    using assms by (auto simp: fun_eq_iff output_at_L nth_list_update)
  show ?thesis unfolding eq by (auto intro!: derivative_eq_intros)
qed

section \<open>Helper facts about the closed form\<close>

lemma integrand_algebra:
  fixes s E Ei a b :: real
  assumes "s * s = 2" and "E * Ei = 1"
  shows "((a * E + b * Ei)\<^sup>2 + ((s * a * E - s * b * Ei) + (a * E + b * Ei))\<^sup>2) / 2
         = a\<^sup>2 * (2 + s) * (E * E) + b\<^sup>2 * (2 - s) * (Ei * Ei)"
proof -
  have "(a * E + b * Ei)\<^sup>2 + ((s * a * E - s * b * Ei) + (a * E + b * Ei))\<^sup>2
        = a\<^sup>2 * (E * E) * (2 + 2 * s + s * s) + b\<^sup>2 * (Ei * Ei) * (2 - 2 * s + s * s)
          + 2 * a * b * (E * Ei) * (2 - s * s)"
    by (simp add: power2_eq_square algebra_simps)
  also have "\<dots> = 2 * (a\<^sup>2 * (2 + s) * (E * E) + b\<^sup>2 * (2 - s) * (Ei * Ei))"
    unfolding assms by (simp add: algebra_simps)
  finally show ?thesis by simp
qed

lemma x_star_deriv: "(x_star has_real_derivative x_star_dot t) (at t)"
  unfolding x_star_def [abs_def] x_star_dot_def
  by (auto intro!: derivative_eq_intros)

lemma exp_facts:
  "exp (sqrt 2 * t) * exp (- sqrt 2 * t) = (1::real)"
  "exp (2 * sqrt 2 * t) = exp (sqrt 2 * t) * exp (sqrt 2 * t)"
  "exp (- 2 * sqrt 2 * t) = exp (- sqrt 2 * t) * exp (- sqrt 2 * t)"
proof -
  show "exp (sqrt 2 * t) * exp (- sqrt 2 * t) = (1::real)"
    by (simp add: exp_minus_inverse)
  have "exp (2 * sqrt 2 * t) = exp (sqrt 2 * t + sqrt 2 * t)" by simp
  then show "exp (2 * sqrt 2 * t) = exp (sqrt 2 * t) * exp (sqrt 2 * t)"
    by (simp only: exp_add)
  have "exp (- 2 * sqrt 2 * t) = exp (- sqrt 2 * t + - sqrt 2 * t)" by simp
  then show "exp (- 2 * sqrt 2 * t) = exp (- sqrt 2 * t) * exp (- sqrt 2 * t)"
    by (simp only: exp_add)
qed

lemma integrand_closed:
  "((x_star t)\<^sup>2 + (x_star_dot t + x_star t)\<^sup>2) / 2
   = c1_star\<^sup>2 * (2 + sqrt 2) * exp (2 * sqrt 2 * t) + c2_star\<^sup>2 * (2 - sqrt 2) * exp (- 2 * sqrt 2 * t)"
  unfolding x_star_def x_star_dot_def exp_facts(2,3)
  by (rule integrand_algebra) (simp_all add: exp_minus_inverse)

lemma primitive_algebra:
  fixes s X Y a b :: real
  assumes "s * s = 2"
  shows "(a * (1 + s) * (X * (2 * s)) + b * (1 - s) * (Y * (- 2 * s))) / 2
         = a * (2 + s) * X + b * (2 - s) * Y"
proof -
  have p: "(1 + s) * (2 * s) = 2 * (2 + s)" and q: "(1 - s) * (- 2 * s) = 2 * (2 - s)"
    using assms by (simp_all add: algebra_simps)
  have "a * (1 + s) * (X * (2 * s)) + b * (1 - s) * (Y * (- 2 * s))
        = a * X * ((1 + s) * (2 * s)) + b * Y * ((1 - s) * (- 2 * s))"
    by (simp only: mult_ac)
  also have "\<dots> = 2 * (a * (2 + s) * X + b * (2 - s) * Y)"
    unfolding p q by (simp add: algebra_simps)
  finally show ?thesis by simp
qed

lemma cost_primitive_deriv:
  "(cost_primitive has_real_derivative ((x_star t)\<^sup>2 + (x_star_dot t + x_star t)\<^sup>2) / 2) (at t)"
proof -
  have s: "sqrt 2 * sqrt 2 = (2::real)" by simp
  have "(cost_primitive has_real_derivative
          (c1_star\<^sup>2 * (1 + sqrt 2) * (exp (2 * sqrt 2 * t) * (2 * sqrt 2))
           + c2_star\<^sup>2 * (1 - sqrt 2) * (exp (- 2 * sqrt 2 * t) * (- 2 * sqrt 2))) / 2) (at t)"
    unfolding cost_primitive_def [abs_def]
    by (auto intro!: derivative_eq_intros)
  then show ?thesis
    unfolding primitive_algebra [OF s] integrand_closed .
qed

lemma solution_explicit:
  "solution = (x_star_dot 0 + x_star 0, x_star_dot tf + x_star tf, cost_primitive tf - cost_primitive 0)"
proof -
  have m: "- sqrt 2 * tf = - (sqrt 2 * tf)" by simp
  have sol: "solution =
     (c1_star * (1 + sqrt 2) + c2_star * (1 - sqrt 2),
      c1_star * (1 + sqrt 2) * exp (sqrt 2 * tf) + c2_star * (1 - sqrt 2) * exp (- (sqrt 2 * tf)),
      0.5 * (c1_star\<^sup>2 * (1 + sqrt 2) * exp (2 * (sqrt 2 * tf))
             + c2_star\<^sup>2 * (1 - sqrt 2) * exp (- 2 * (sqrt 2 * tf))
             - (1 + sqrt 2) * c1_star\<^sup>2 - (1 - sqrt 2) * c2_star\<^sup>2))"
    unfolding solution_def Let_def c1_star_def c2_star_def m ..
  have ui: "c1_star * (1 + sqrt 2) + c2_star * (1 - sqrt 2) = x_star_dot 0 + x_star 0"
    by (simp add: x_star_dot_def x_star_def algebra_simps)
  have uf: "c1_star * (1 + sqrt 2) * exp (sqrt 2 * tf) + c2_star * (1 - sqrt 2) * exp (- (sqrt 2 * tf))
            = x_star_dot tf + x_star tf"
    by (simp add: x_star_dot_def x_star_def algebra_simps)
  have J: "0.5 * (c1_star\<^sup>2 * (1 + sqrt 2) * exp (2 * (sqrt 2 * tf))
             + c2_star\<^sup>2 * (1 - sqrt 2) * exp (- 2 * (sqrt 2 * tf))
             - (1 + sqrt 2) * c1_star\<^sup>2 - (1 - sqrt 2) * c2_star\<^sup>2)
           = cost_primitive tf - cost_primitive 0"
    by (simp add: cost_primitive_def field_simps)
  show ?thesis unfolding sol ui uf J ..
qed

lemma primitive_difference_unique:
  fixes F G :: "real \<Rightarrow> real"
  assumes "\<And>t. (F has_real_derivative g t) (at t)" and "\<And>t. (G has_real_derivative g t) (at t)"
  shows "F b - F a = G b - G a"
proof -
  have "((\<lambda>t. F t - G t) has_real_derivative 0) (at t)" for t
    using DERIV_diff [OF assms(1) [of t] assms(2) [of t]] by simp
  then have "F b - G b = F a - G a"
    by (rule DERIV_isconst_all [rule_format, where f = "\<lambda>t. F t - G t"]) 
  then show ?thesis by simp
qed

lemma riemann_sum_linear:
  "riemann_sum (\<lambda>t. A * f t + B * g t) a b n = A * riemann_sum f a b n + B * riemann_sum g a b n"
  by (simp add: riemann_sum_def sum.distrib sum_distrib_left algebra_simps)

lemma exp_riemann_sum_eq:
  fixes c b :: real
  assumes "c \<noteq> 0" and "b \<noteq> 0" and "0 < n"
  shows "riemann_sum (\<lambda>t. exp (c * t)) 0 b n
         = (exp (c * b) - 1) * ((b / real n) / (exp (c * (b / real n)) - 1))"
proof -
  define h where "h = b / real n"
  have hn: "real n * h = b" using assms(3) by (simp add: h_def)
  have ne: "exp (c * h) \<noteq> 1" using assms by (simp add: h_def)
  have "(\<Sum>k<n. exp (c * (0 + real k * h))) = (\<Sum>k<n. exp (c * h) ^ k)"
    by (intro sum.cong refl) (simp add: exp_of_nat_mult [symmetric] mult_ac)
  also have "\<dots> = (exp (c * h) ^ n - 1) / (exp (c * h) - 1)"
    using ne by (rule geometric_sum)
  also have "exp (c * h) ^ n = exp (c * b)"
    using hn by (simp add: exp_of_nat_mult [symmetric] mult_ac)
  finally have "(\<Sum>k<n. exp (c * (0 + real k * h))) = (exp (c * b) - 1) / (exp (c * h) - 1)" .
  then show ?thesis
    by (simp add: riemann_sum_def h_def)
qed

lemma exp_riemann_sum_limit:
  fixes c b :: real
  assumes "c \<noteq> 0"
  shows "(\<lambda>n. riemann_sum (\<lambda>t. exp (c * t)) 0 b n) \<longlonglongrightarrow> (exp (c * b) - 1) / c"
proof (cases "b = 0")
  case True
  then show ?thesis by (simp add: riemann_sum_def)
next
  case False
  have h0: "(\<lambda>n. b / real n) \<longlonglongrightarrow> 0"
    by (rule lim_const_over_n)
  have hne: "eventually (\<lambda>n. b / real n \<noteq> 0) sequentially"
    using False by (auto simp: eventually_sequentially intro!: exI [of _ 1])
  have "((\<lambda>t. exp (c * t)) has_real_derivative c) (at 0)"
    by (auto intro!: derivative_eq_intros)
  then have D: "(\<lambda>h. (exp (c * h) - 1) / h) \<midarrow>0\<rightarrow> c"
    by (simp add: DERIV_def)
  have L1: "(\<lambda>n. (exp (c * (b / real n)) - 1) / (b / real n)) \<longlonglongrightarrow> c"
    using D h0 hne by (rule tendsto_compose_eventually)
  have "(\<lambda>n. inverse ((exp (c * (b / real n)) - 1) / (b / real n))) \<longlonglongrightarrow> inverse c"
    using L1 assms by (rule tendsto_inverse)
  then have L2: "(\<lambda>n. (b / real n) / (exp (c * (b / real n)) - 1)) \<longlonglongrightarrow> 1 / c"
    by (simp add: inverse_eq_divide mult.commute)
  have L3: "(\<lambda>n. (exp (c * b) - 1) * ((b / real n) / (exp (c * (b / real n)) - 1)))
              \<longlonglongrightarrow> (exp (c * b) - 1) * (1 / c)"
    using L2 by (rule tendsto_mult_left)
  have ev: "eventually (\<lambda>n. (exp (c * b) - 1) * ((b / real n) / (exp (c * (b / real n)) - 1))
                             = riemann_sum (\<lambda>t. exp (c * t)) 0 b n) sequentially"
    unfolding eventually_sequentially
    by (rule exI [of _ 1]) (simp add: exp_riemann_sum_eq [OF assms False])
  have "(\<lambda>n. riemann_sum (\<lambda>t. exp (c * t)) 0 b n) \<longlonglongrightarrow> (exp (c * b) - 1) * (1 / c)"
    using L3 ev by (rule Lim_transform_eventually)
  then show ?thesis by simp
qed

lemma quotient_algebra:
  fixes s :: real
  assumes "s * s = 2"
  shows "(2 + s) / (2 * s) = (1 + s) / 2" and "(2 - s) / (- (2 * s)) = (1 - s) / 2"
proof -
  have s0: "s \<noteq> 0" using assms by auto
  have "(2 + s) / (2 * s) = (1 + s) / 2 \<longleftrightarrow> (2 + s) * 2 = (1 + s) * (2 * s)"
    by (rule frac_eq_eq) (use s0 in simp_all)
  moreover have "(2 + s) * 2 = (1 + s) * (2 * s)"
    using assms by (simp add: algebra_simps)
  ultimately show "(2 + s) / (2 * s) = (1 + s) / 2" by blast
  have "(2 - s) / (- (2 * s)) = (1 - s) / 2 \<longleftrightarrow> (2 - s) * 2 = (1 - s) * (- (2 * s))"
    by (rule frac_eq_eq) (use s0 in simp_all)
  moreover have "(2 - s) * 2 = (1 - s) * (- (2 * s))"
    using assms by (simp add: algebra_simps)
  ultimately show "(2 - s) / (- (2 * s)) = (1 - s) / 2" by blast
qed

lemma cost_riemann_limit:
  "(\<lambda>n. riemann_sum (\<lambda>t. ((x_star t)\<^sup>2 + (x_star_dot t + x_star t)\<^sup>2) / 2) 0 tf n)
     \<longlonglongrightarrow> cost_primitive tf - cost_primitive 0"
proof -
  define A where "A = c1_star\<^sup>2 * (2 + sqrt 2)"
  define B where "B = c2_star\<^sup>2 * (2 - sqrt 2)"
  have s: "sqrt 2 * sqrt 2 = (2::real)" by simp
  have g: "(\<lambda>t. ((x_star t)\<^sup>2 + (x_star_dot t + x_star t)\<^sup>2) / 2)
           = (\<lambda>t. A * exp ((2 * sqrt 2) * t) + B * exp ((- (2 * sqrt 2)) * t))"
    by (simp add: fun_eq_iff integrand_closed A_def B_def)
  have p: "(\<lambda>n. riemann_sum (\<lambda>t. exp ((2 * sqrt 2) * t)) 0 tf n)
             \<longlonglongrightarrow> (exp ((2 * sqrt 2) * tf) - 1) / (2 * sqrt 2)"
    by (rule exp_riemann_sum_limit) simp
  have q: "(\<lambda>n. riemann_sum (\<lambda>t. exp ((- (2 * sqrt 2)) * t)) 0 tf n)
             \<longlonglongrightarrow> (exp ((- (2 * sqrt 2)) * tf) - 1) / (- (2 * sqrt 2))"
    by (rule exp_riemann_sum_limit) simp
  have "(\<lambda>n. A * riemann_sum (\<lambda>t. exp ((2 * sqrt 2) * t)) 0 tf n
            + B * riemann_sum (\<lambda>t. exp ((- (2 * sqrt 2)) * t)) 0 tf n)
          \<longlonglongrightarrow> A * ((exp ((2 * sqrt 2) * tf) - 1) / (2 * sqrt 2))
                + B * ((exp ((- (2 * sqrt 2)) * tf) - 1) / (- (2 * sqrt 2)))"
    by (intro tendsto_add tendsto_mult_left p q)
  then have lim: "(\<lambda>n. riemann_sum (\<lambda>t. ((x_star t)\<^sup>2 + (x_star_dot t + x_star t)\<^sup>2) / 2) 0 tf n)
          \<longlonglongrightarrow> A * ((exp ((2 * sqrt 2) * tf) - 1) / (2 * sqrt 2))
                + B * ((exp ((- (2 * sqrt 2)) * tf) - 1) / (- (2 * sqrt 2)))"
    unfolding g riemann_sum_linear .
  have "A * ((exp ((2 * sqrt 2) * tf) - 1) / (2 * sqrt 2))
        = c1_star\<^sup>2 * ((2 + sqrt 2) / (2 * sqrt 2)) * (exp (2 * sqrt 2 * tf) - 1)"
    by (simp add: A_def)
  also have "\<dots> = c1_star\<^sup>2 * ((1 + sqrt 2) / 2) * (exp (2 * sqrt 2 * tf) - 1)"
    unfolding quotient_algebra(1) [OF s] ..
  finally have a: "A * ((exp ((2 * sqrt 2) * tf) - 1) / (2 * sqrt 2))
        = c1_star\<^sup>2 * ((1 + sqrt 2) / 2) * (exp (2 * sqrt 2 * tf) - 1)" .
  have "B * ((exp ((- (2 * sqrt 2)) * tf) - 1) / (- (2 * sqrt 2)))
        = c2_star\<^sup>2 * ((2 - sqrt 2) / (- (2 * sqrt 2))) * (exp (- 2 * sqrt 2 * tf) - 1)"
    by (simp add: B_def)
  also have "\<dots> = c2_star\<^sup>2 * ((1 - sqrt 2) / 2) * (exp (- 2 * sqrt 2 * tf) - 1)"
    unfolding quotient_algebra(2) [OF s] ..
  finally have b: "B * ((exp ((- (2 * sqrt 2)) * tf) - 1) / (- (2 * sqrt 2)))
        = c2_star\<^sup>2 * ((1 - sqrt 2) / 2) * (exp (- 2 * sqrt 2 * tf) - 1)" .
  have "c1_star\<^sup>2 * ((1 + sqrt 2) / 2) * (exp (2 * sqrt 2 * tf) - 1)
        + c2_star\<^sup>2 * ((1 - sqrt 2) / 2) * (exp (- 2 * sqrt 2 * tf) - 1)
        = cost_primitive tf - cost_primitive 0"
    by (simp add: cost_primitive_def field_simps)
  then show ?thesis using lim unfolding a b by simp
qed

section \<open>The state rate and the running cost\<close>





section \<open>The declared partial derivatives are the Jacobian\<close>

text \<open>
  C3. Let the component be set up for \<open>nn\<close> nodes and let \<^verbatim>\<open>x\<close> and \<^verbatim>\<open>u\<close> have
  \<open>nn\<close> entries. Then \<^verbatim>\<open>compute_partials\<close>, run on the Jacobian that the declarations
  give, returns normally, stores \<^verbatim>\<open>x\<close> under \<^verbatim>\<open>('L', 'x')\<close> and \<^verbatim>\<open>u\<close> under
  \<^verbatim>\<open>('L', 'u')\<close>, and leaves the declared constants \<open>-1\<close> and \<open>1\<close> in the blocks of
  \<^verbatim>\<open>x_dot\<close>. The resulting Jacobian is diagonal with these values, and each of its entries
  \<open>(i, j)\<close> is the derivative of entry \<open>i\<close> of the output of \<^verbatim>\<open>compute\<close> with respect to
  entry \<open>j\<close> of the input, all other entries held fixed.
\<close>

theorem partials_are_jacobian:
  assumes "setup_ode (new_component (Some nn)) = Inr c"
    and "inputs ''x'' = Some x" and "inputs ''u'' = Some u"
    and "length x = nat nn" and "length u = nat nn"
  shows "\<exists>jac. compute_partials inputs (declared_jacobian (var_partials c)) = Inr jac \<and>
           jac (''L'', ''x'') = Some x \<and> jac (''L'', ''u'') = Some u \<and>
           jac (''x_dot'', ''x'') = Some (replicate (nat nn) (- 1)) \<and>
           jac (''x_dot'', ''u'') = Some (replicate (nat nn) 1) \<and>
           (\<forall>i<nat nn. \<forall>j<nat nn.
              jac_entry (var_partials c) jac ''x_dot'' ''x'' i j = (if i = j then - 1 else 0) \<and>
              jac_entry (var_partials c) jac ''x_dot'' ''u'' i j = (if i = j then 1 else 0) \<and>
              jac_entry (var_partials c) jac ''L'' ''x'' i j = (if i = j then x ! i else 0) \<and>
              jac_entry (var_partials c) jac ''L'' ''u'' i j = (if i = j then u ! i else 0) \<and>
              ((\<lambda>t. output_at ''x_dot'' i (inputs(''x'' \<mapsto> x[j := t]))) has_real_derivative
                 jac_entry (var_partials c) jac ''x_dot'' ''x'' i j) (at (x ! j)) \<and>
              ((\<lambda>t. output_at ''x_dot'' i (inputs(''u'' \<mapsto> u[j := t]))) has_real_derivative
                 jac_entry (var_partials c) jac ''x_dot'' ''u'' i j) (at (u ! j)) \<and>
              ((\<lambda>t. output_at ''L'' i (inputs(''x'' \<mapsto> x[j := t]))) has_real_derivative
                 jac_entry (var_partials c) jac ''L'' ''x'' i j) (at (x ! j)) \<and>
              ((\<lambda>t. output_at ''L'' i (inputs(''u'' \<mapsto> u[j := t]))) has_real_derivative
                 jac_entry (var_partials c) jac ''L'' ''u'' i j) (at (u ! j)))"
proof -
  define jac where "jac = (declared_jacobian (var_partials c))((''L'', ''x'') \<mapsto> x, (''L'', ''u'') \<mapsto> u)"
  have run: "compute_partials inputs (declared_jacobian (var_partials c)) = Inr jac"
    unfolding jac_def using assms(2,3) by (rule compute_partials_ok)
  have vals: "jac (''L'', ''x'') = Some x" "jac (''L'', ''u'') = Some u"
    "jac (''x_dot'', ''x'') = Some (replicate (nat nn) (- 1))"
    "jac (''x_dot'', ''u'') = Some (replicate (nat nn) 1)"
    by (simp_all add: jac_def setup_ode_jacobian [OF assms(1)])
  have len: "length x = length u" using assms(4,5) by simp
  have ds: "jac_entry (var_partials c) jac ''x_dot'' ''x'' i j = (if i = j then - 1 else 0) \<and>
            jac_entry (var_partials c) jac ''x_dot'' ''u'' i j = (if i = j then 1 else 0) \<and>
            jac_entry (var_partials c) jac ''L'' ''x'' i j = (if i = j then x ! i else 0) \<and>
            jac_entry (var_partials c) jac ''L'' ''u'' i j = (if i = j then u ! i else 0) \<and>
            ((\<lambda>t. output_at ''x_dot'' i (inputs(''x'' \<mapsto> x[j := t]))) has_real_derivative
               jac_entry (var_partials c) jac ''x_dot'' ''x'' i j) (at (x ! j)) \<and>
            ((\<lambda>t. output_at ''x_dot'' i (inputs(''u'' \<mapsto> u[j := t]))) has_real_derivative
               jac_entry (var_partials c) jac ''x_dot'' ''u'' i j) (at (u ! j)) \<and>
            ((\<lambda>t. output_at ''L'' i (inputs(''x'' \<mapsto> x[j := t]))) has_real_derivative
               jac_entry (var_partials c) jac ''L'' ''x'' i j) (at (x ! j)) \<and>
            ((\<lambda>t. output_at ''L'' i (inputs(''u'' \<mapsto> u[j := t]))) has_real_derivative
               jac_entry (var_partials c) jac ''L'' ''u'' i j) (at (u ! j))"
    if ij: "i < nat nn" "j < nat nn" for i j
  proof -
    note e = setup_ode_entries [OF assms(1,4,5) ij jac_def]
    have i': "i < length x" and j': "j < length x" using ij assms(4) by simp_all
    have d1: "((\<lambda>t. output_at ''x_dot'' i (inputs(''x'' \<mapsto> x[j := t]))) has_real_derivative
               jac_entry (var_partials c) jac ''x_dot'' ''x'' i j) (at (x ! j))"
      unfolding e(1) using assms(3) len i' j' by (rule deriv_x_dot_x)
    have d2: "((\<lambda>t. output_at ''x_dot'' i (inputs(''u'' \<mapsto> u[j := t]))) has_real_derivative
               jac_entry (var_partials c) jac ''x_dot'' ''u'' i j) (at (u ! j))"
      unfolding e(2) using assms(2) len i' j' by (rule deriv_x_dot_u)
    have "((\<lambda>t. output_at ''L'' i (inputs(''x'' \<mapsto> x[j := t]))) has_real_derivative
               (if i = j then x ! j else 0)) (at (x ! j))"
      using assms(3) len i' j' by (rule deriv_L_x)
    then have d3: "((\<lambda>t. output_at ''L'' i (inputs(''x'' \<mapsto> x[j := t]))) has_real_derivative
               jac_entry (var_partials c) jac ''L'' ''x'' i j) (at (x ! j))"
      unfolding e(3) by (cases "i = j") simp_all
    have "((\<lambda>t. output_at ''L'' i (inputs(''u'' \<mapsto> u[j := t]))) has_real_derivative
               (if i = j then u ! j else 0)) (at (u ! j))"
      using assms(2) len i' j' by (rule deriv_L_u)
    then have d4: "((\<lambda>t. output_at ''L'' i (inputs(''u'' \<mapsto> u[j := t]))) has_real_derivative
               jac_entry (var_partials c) jac ''L'' ''u'' i j) (at (u ! j))"
      unfolding e(4) by (cases "i = j") simp_all
    show ?thesis using e d1 d2 d3 d4 by blast
  qed
  show ?thesis
    apply (rule exI [of _ jac])
    using run vals ds by blast
qed

theorem partials_are_jacobian_witness:
  "\<exists>c jac. setup_ode (new_component (Some 2)) = Inr c \<and>
     compute_partials [''x'' \<mapsto> [1, 2], ''xL'' \<mapsto> [0, 0], ''u'' \<mapsto> [3, 5]]
       (declared_jacobian (var_partials c)) = Inr jac \<and>
     jac (''L'', ''x'') = Some [1, 2] \<and> jac (''L'', ''u'') = Some [3, 5] \<and>
     jac (''x_dot'', ''x'') = Some [- 1, - 1] \<and> jac (''x_dot'', ''u'') = Some [1, 1] \<and>
     jac_entry (var_partials c) jac ''L'' ''x'' 1 1 = 2 \<and>
     jac_entry (var_partials c) jac ''L'' ''x'' 0 1 = 0 \<and>
     ((\<lambda>t. output_at ''L'' 1 ([''x'' \<mapsto> [1, 2], ''xL'' \<mapsto> [0, 0], ''u'' \<mapsto> [3, 5]]
                                  (''x'' \<mapsto> [1, 2][1 := t]))) has_real_derivative
        jac_entry (var_partials c) jac ''L'' ''x'' 1 1) (at 2)"
proof -
  let ?I = "[''x'' \<mapsto> [1, 2], ''xL'' \<mapsto> [0, 0], ''u'' \<mapsto> [3, 5 :: real]]"
  obtain c where c: "setup_ode (new_component (Some 2)) = Inr c"
    using setup_ode_ok [of 2] by auto
  have p: "?I ''x'' = Some [1, 2]" "?I ''u'' = Some [3, 5]"
    "length [1, 2 :: real] = nat 2" "length [3, 5 :: real] = nat 2"
    by simp_all
  from partials_are_jacobian [where inputs = ?I and x = "[1, 2]" and u = "[3, 5]", OF c p]
  obtain jac where r: "compute_partials ?I (declared_jacobian (var_partials c)) = Inr jac"
    and v: "jac (''L'', ''x'') = Some [1, 2]" "jac (''L'', ''u'') = Some [3, 5]"
      "jac (''x_dot'', ''x'') = Some (replicate (nat 2) (- 1))"
      "jac (''x_dot'', ''u'') = Some (replicate (nat 2) 1)"
    and a: "\<And>i j. i < nat 2 \<Longrightarrow> j < nat 2 \<Longrightarrow>
        jac_entry (var_partials c) jac ''L'' ''x'' i j = (if i = j then [1, 2] ! i else 0) \<and>
        ((\<lambda>t. output_at ''L'' i (?I(''x'' \<mapsto> [1, 2][j := t]))) has_real_derivative
           jac_entry (var_partials c) jac ''L'' ''x'' i j) (at ([1, 2] ! j))"
    by blast
  have one: "(1::nat) < nat 2" and e: "[1, 2 :: real] ! 1 = 2" by simp_all
  have a11: "jac_entry (var_partials c) jac ''L'' ''x'' 1 1 = 2"
    using a [OF one one] by simp
  have "((\<lambda>t. output_at ''L'' 1 (?I(''x'' \<mapsto> [1, 2][1 := t]))) has_real_derivative
           jac_entry (var_partials c) jac ''L'' ''x'' 1 1) (at ([1, 2] ! 1))"
    using a [OF one one] by (rule conjunct2)
  then have d11: "((\<lambda>t. output_at ''L'' 1 (?I(''x'' \<mapsto> [1, 2][1 := t]))) has_real_derivative
           jac_entry (var_partials c) jac ''L'' ''x'' 1 1) (at 2)"
    by (simp only: e)
  have a01: "jac_entry (var_partials c) jac ''L'' ''x'' 0 1 = 0"
    using a [of 0 1] by simp
  have v': "jac (''x_dot'', ''x'') = Some [- 1, - 1]" "jac (''x_dot'', ''u'') = Some [1, 1]"
    using v(3,4) by (simp_all add: numeral_2_eq_2)
  show ?thesis using c r v(1,2) v' a11 a01 d11 by blast
qed

section \<open>Independence of the cost state\<close>

text \<open>
  C8. \<^verbatim>\<open>compute\<close> does not depend on the input \<^verbatim>\<open>xL\<close>: two input dictionaries that
  agree on \<^verbatim>\<open>x\<close> and on \<^verbatim>\<open>u\<close> give the same result, whatever else they hold.
\<close>

theorem compute_ignores_xL:
  assumes "inputs1 ''x'' = inputs2 ''x''" and "inputs1 ''u'' = inputs2 ''u''"
  shows "compute inputs1 outputs = compute inputs2 outputs"
  using assms by (simp add: compute_def getitem_def cong: sum.case_cong)

theorem compute_ignores_xL_witness:
  "compute [''x'' \<mapsto> [1, 2], ''xL'' \<mapsto> [0, 0], ''u'' \<mapsto> [3, 5]] Map.empty =
   compute [''x'' \<mapsto> [1, 2], ''xL'' \<mapsto> [7, 9, 11], ''u'' \<mapsto> [3, 5]] Map.empty"
  using compute_ignores_xL [of "[''x'' \<mapsto> [1, 2], ''xL'' \<mapsto> [0, 0], ''u'' \<mapsto> [3, 5]]"
      "[''x'' \<mapsto> [1, 2], ''xL'' \<mapsto> [7, 9, 11], ''u'' \<mapsto> [3, 5]]" Map.empty]
  by simp

section \<open>What compute_partials writes\<close>

text \<open>
  C9. A run of \<^verbatim>\<open>compute_partials\<close> changes the Jacobian at the keys
  \<^verbatim>\<open>('L', 'x')\<close> and \<^verbatim>\<open>('L', 'u')\<close> only. Every other key keeps its value, and so the
  blocks \<^verbatim>\<open>('x_dot', 'x')\<close> and \<^verbatim>\<open>('x_dot', 'u')\<close> still hold the constants \<open>-1\<close>
  and \<open>1\<close> that the declarations gave them.
\<close>

theorem compute_partials_frame:
  assumes "compute_partials inputs jac = Inr jac'"
  shows "(\<forall>k. k \<noteq> (''L'', ''x'') \<and> k \<noteq> (''L'', ''u'') \<longrightarrow> jac' k = jac k) \<and>
         jac' (''x_dot'', ''x'') = jac (''x_dot'', ''x'') \<and>
         jac' (''x_dot'', ''u'') = jac (''x_dot'', ''u'') \<and>
         (\<forall>nn c. setup_ode (new_component (Some nn)) = Inr c \<and>
                  jac = declared_jacobian (var_partials c) \<longrightarrow>
                  jac' (''x_dot'', ''x'') = Some (replicate (nat nn) (- 1)) \<and>
                  jac' (''x_dot'', ''u'') = Some (replicate (nat nn) 1))"
proof -
  have frame: "jac' k = jac k" if "k \<noteq> (''L'', ''x'')" and "k \<noteq> (''L'', ''u'')" for k
    using assms that by (auto simp: compute_partials_def split: sum.splits)
  have a: "jac' (''x_dot'', ''x'') = jac (''x_dot'', ''x'')"
    and b: "jac' (''x_dot'', ''u'') = jac (''x_dot'', ''u'')"
    by (simp_all add: frame)
  have "jac' (''x_dot'', ''x'') = Some (replicate (nat nn) (- 1)) \<and>
        jac' (''x_dot'', ''u'') = Some (replicate (nat nn) 1)"
    if "setup_ode (new_component (Some nn)) = Inr c" and "jac = declared_jacobian (var_partials c)"
    for nn c
    using a b that by (simp add: setup_ode_jacobian)
  then show ?thesis using frame a b by blast
qed

theorem compute_partials_frame_witness:
  "\<exists>c jac'. setup_ode (new_component (Some 2)) = Inr c \<and>
     compute_partials [''x'' \<mapsto> [1, 2], ''xL'' \<mapsto> [0, 0], ''u'' \<mapsto> [3, 5]]
       (declared_jacobian (var_partials c)) = Inr jac' \<and>
     jac' (''x_dot'', ''x'') = Some [- 1, - 1] \<and> jac' (''x_dot'', ''u'') = Some [1, 1] \<and>
     jac' (''L'', ''xL'') = None"
proof -
  let ?I = "[''x'' \<mapsto> [1, 2], ''xL'' \<mapsto> [0, 0], ''u'' \<mapsto> [3, 5 :: real]]"
  obtain c where c: "setup_ode (new_component (Some 2)) = Inr c"
    using setup_ode_ok [of 2] by auto
  have p: "?I ''x'' = Some [1, 2]" "?I ''u'' = Some [3, 5]"
    by simp_all
  define jac' where
    "jac' = (declared_jacobian (var_partials c))((''L'', ''x'') \<mapsto> [1, 2], (''L'', ''u'') \<mapsto> [3, 5])"
  have r: "compute_partials ?I (declared_jacobian (var_partials c)) = Inr jac'"
    unfolding jac'_def using p by (rule compute_partials_ok)
  note t = compute_partials_frame [OF r]
  have "jac' (''x_dot'', ''x'') = Some (replicate (nat 2) (- 1)) \<and>
        jac' (''x_dot'', ''u'') = Some (replicate (nat 2) 1)"
    using t [THEN conjunct2, THEN conjunct2, THEN conjunct2, rule_format, of 2 c] c by simp
  then have "jac' (''x_dot'', ''x'') = Some [- 1, - 1]" "jac' (''x_dot'', ''u'') = Some [1, 1]"
    by (simp_all add: numeral_2_eq_2)
  moreover have "jac' (''L'', ''xL'') = declared_jacobian (var_partials c) (''L'', ''xL'')"
    using t [THEN conjunct1, rule_format, of "(''L'', ''xL'')"] by simp
  then have "jac' (''L'', ''xL'') = None"
    by (simp add: setup_ode_jacobian [OF c])
  ultimately show ?thesis using c r by blast
qed

section \<open>Nodes are decoupled\<close>

text \<open>
  C10. Entry \<open>i\<close> of \<^verbatim>\<open>x_dot\<close> and of \<^verbatim>\<open>L\<close> depends on entry \<open>i\<close> of \<^verbatim>\<open>x\<close> and
  of \<^verbatim>\<open>u\<close> only: two runs of \<^verbatim>\<open>compute\<close> whose inputs agree at an index agree at
  that index in both outputs. Equivalently, restricting every input and output array to a
  set of indices and then running \<^verbatim>\<open>compute\<close> gives the restriction of the result of
  running it on the whole arrays. Every partial derivative declared for the component has
  the diagonal pattern \<open>rows = cols = arange(num_nodes)\<close>.
\<close>

theorem compute_nodewise:
  assumes "inputs1 ''x'' = Some x1" and "inputs1 ''u'' = Some u1" and "length x1 = length u1"
    and "inputs2 ''x'' = Some x2" and "inputs2 ''u'' = Some u2" and "length x2 = length u2"
  shows "(\<exists>o1 o2 xd1 xd2 l1 l2.
            compute inputs1 outputs1 = Inr o1 \<and> compute inputs2 outputs2 = Inr o2 \<and>
            o1 ''x_dot'' = Some xd1 \<and> o2 ''x_dot'' = Some xd2 \<and>
            o1 ''L'' = Some l1 \<and> o2 ''L'' = Some l2 \<and>
            length xd1 = length x1 \<and> length l1 = length x1 \<and>
            length xd2 = length x2 \<and> length l2 = length x2 \<and>
            (\<forall>i. i < length x1 \<and> i < length x2 \<and> x1 ! i = x2 ! i \<and> u1 ! i = u2 ! i \<longrightarrow>
                 xd1 ! i = xd2 ! i \<and> l1 ! i = l2 ! i)) \<and>
         (\<forall>I. compute (restrict_dict I inputs1) (restrict_dict I outputs1) =
               map_sum id (restrict_dict I) (compute inputs1 outputs1)) \<and>
         (\<forall>nn c. setup_ode (new_component (Some nn)) = Inr c \<longrightarrow>
               list_all (\<lambda>p. p_rows p = np_arange nn \<and> p_cols p = np_arange nn) (var_partials c))"
proof -
  have A: "\<exists>o1 o2 xd1 xd2 l1 l2.
            compute inputs1 outputs1 = Inr o1 \<and> compute inputs2 outputs2 = Inr o2 \<and>
            o1 ''x_dot'' = Some xd1 \<and> o2 ''x_dot'' = Some xd2 \<and>
            o1 ''L'' = Some l1 \<and> o2 ''L'' = Some l2 \<and>
            length xd1 = length x1 \<and> length l1 = length x1 \<and>
            length xd2 = length x2 \<and> length l2 = length x2 \<and>
            (\<forall>i. i < length x1 \<and> i < length x2 \<and> x1 ! i = x2 ! i \<and> u1 ! i = u2 ! i \<longrightarrow>
                 xd1 ! i = xd2 ! i \<and> l1 ! i = l2 ! i)"
    using assms by (simp add: compute_equal_length)
  have B: "compute (restrict_dict I inputs1) (restrict_dict I outputs1) =
           map_sum id (restrict_dict I) (compute inputs1 outputs1)" for I
  proof -
    have x: "restrict_dict I inputs1 ''x'' = Some (nths x1 I)"
      and u: "restrict_dict I inputs1 ''u'' = Some (nths u1 I)"
      using assms(1,2) by (simp_all add: restrict_dict_def)
    have l: "length (nths x1 I) = length (nths u1 I)"
      using assms(3) by (rule length_nths_eq)
    show ?thesis
      unfolding compute_equal_length [OF x u l] compute_equal_length [OF assms(1-3)]
      using assms(3)
      by (simp add: restrict_dict_def fun_eq_iff nths_map nths_zip)
  qed
  have C: "list_all (\<lambda>p. p_rows p = np_arange nn \<and> p_cols p = np_arange nn) (var_partials c)"
    if "setup_ode (new_component (Some nn)) = Inr c" for nn c
    by (simp add: setup_ode_partials [OF that])
  show ?thesis using A B C by blast
qed

theorem compute_nodewise_witness:
  "(\<exists>o1 o2 xd1 xd2 l1 l2.
      compute [''x'' \<mapsto> [1, 2], ''xL'' \<mapsto> [0, 0], ''u'' \<mapsto> [3, 5]] Map.empty = Inr o1 \<and>
      compute [''x'' \<mapsto> [1, 7], ''xL'' \<mapsto> [4, 4], ''u'' \<mapsto> [3, 9]] Map.empty = Inr o2 \<and>
      o1 ''x_dot'' = Some xd1 \<and> o2 ''x_dot'' = Some xd2 \<and>
      o1 ''L'' = Some l1 \<and> o2 ''L'' = Some l2 \<and>
      xd1 ! 0 = xd2 ! 0 \<and> l1 ! 0 = l2 ! 0) \<and>
   compute (restrict_dict {1} [''x'' \<mapsto> [1, 2], ''xL'' \<mapsto> [0, 0], ''u'' \<mapsto> [3, 5]])
       (restrict_dict {1} Map.empty) =
     map_sum id (restrict_dict {1})
       (compute [''x'' \<mapsto> [1, 2], ''xL'' \<mapsto> [0, 0], ''u'' \<mapsto> [3, 5]] Map.empty)"
proof -
  let ?I1 = "[''x'' \<mapsto> [1, 2], ''xL'' \<mapsto> [0, 0], ''u'' \<mapsto> [3, 5 :: real]]"
  let ?I2 = "[''x'' \<mapsto> [1, 7], ''xL'' \<mapsto> [4, 4], ''u'' \<mapsto> [3, 9 :: real]]"
  have p: "?I1 ''x'' = Some [1, 2]" "?I1 ''u'' = Some [3, 5]" "length [1, 2 :: real] = length [3, 5 :: real]"
    "?I2 ''x'' = Some [1, 7]" "?I2 ''u'' = Some [3, 9]" "length [1, 7 :: real] = length [3, 9 :: real]"
    by simp_all
  note t = compute_nodewise [where ?inputs1.0 = ?I1 and ?inputs2.0 = ?I2 and ?x1.0 = "[1, 2]"
      and ?u1.0 = "[3, 5]" and ?x2.0 = "[1, 7]" and ?u2.0 = "[3, 9]"
      and ?outputs1.0 = Map.empty and ?outputs2.0 = Map.empty, OF p]
  from t [THEN conjunct1]
  obtain o1 o2 xd1 xd2 l1 l2 where
    r: "compute ?I1 Map.empty = Inr o1" "compute ?I2 Map.empty = Inr o2"
      "o1 ''x_dot'' = Some xd1" "o2 ''x_dot'' = Some xd2" "o1 ''L'' = Some l1" "o2 ''L'' = Some l2"
    and a: "\<forall>i. i < length [1, 2 :: real] \<and> i < length [1, 7 :: real] \<and>
                [1, 2 :: real] ! i = [1, 7] ! i \<and> [3, 5 :: real] ! i = [3, 9] ! i \<longrightarrow>
                xd1 ! i = xd2 ! i \<and> l1 ! i = l2 ! i"
    by blast
  have z: "xd1 ! 0 = xd2 ! 0 \<and> l1 ! 0 = l2 ! 0"
    using a [rule_format, of 0] by simp
  have A: "\<exists>o1 o2 xd1 xd2 l1 l2.
      compute ?I1 Map.empty = Inr o1 \<and> compute ?I2 Map.empty = Inr o2 \<and>
      o1 ''x_dot'' = Some xd1 \<and> o2 ''x_dot'' = Some xd2 \<and>
      o1 ''L'' = Some l1 \<and> o2 ''L'' = Some l2 \<and>
      xd1 ! 0 = xd2 ! 0 \<and> l1 ! 0 = l2 ! 0"
    using r z by blast
  have B: "compute (restrict_dict {1} ?I1) (restrict_dict {1} Map.empty) =
             map_sum id (restrict_dict {1}) (compute ?I1 Map.empty)"
    by (rule t [THEN conjunct2, THEN conjunct1, rule_format])
  show ?thesis using A B by (rule conjI)
qed

section \<open>The analytic reference solution is the closed form\<close>

text \<open>
  C4. \<^verbatim>\<open>solution()\<close> evaluates the closed form at \<open>tf\<close>, over the reals. Whatever function
  \<open>xd\<close> is the derivative of \<open>x*\<close> on the real line, so that \<open>u* = xd + x*\<close>, and whatever
  function \<open>F\<close> is a primitive of \<open>(x*\<^sup>2 + u*\<^sup>2) / 2\<close> on the real line, the triple returned is
  \<open>(u*(0), u*(tf), F(tf) - F(0))\<close>. The third component is the integral of
  \<open>(x*\<^sup>2 + u*\<^sup>2) / 2\<close> from \<open>0\<close> to \<open>tf\<close> in both of its elementary readings: it is the
  increase of every primitive of the integrand, and it is the limit of the Riemann sums of
  the integrand over ever finer equal subdivisions of the interval.
\<close>

theorem solution_closed_form:
  assumes "\<forall>t. (x_star has_real_derivative xd t) (at t)"
    and "\<forall>t. (F has_real_derivative ((x_star t)\<^sup>2 + (xd t + x_star t)\<^sup>2) / 2) (at t)"
  shows "solution = (xd 0 + x_star 0, xd tf + x_star tf, F tf - F 0) \<and>
         (\<lambda>n. riemann_sum (\<lambda>t. ((x_star t)\<^sup>2 + (xd t + x_star t)\<^sup>2) / 2) 0 tf n)
           \<longlonglongrightarrow> F tf - F 0"
proof -
  have xd: "xd t = x_star_dot t" for t
    using assms(1) x_star_deriv by (blast intro: DERIV_unique)
  have "(F has_real_derivative ((x_star t)\<^sup>2 + (x_star_dot t + x_star t)\<^sup>2) / 2) (at t)" for t
    using assms(2) by (simp add: xd)
  then have F: "F tf - F 0 = cost_primitive tf - cost_primitive 0"
    using cost_primitive_deriv by (rule primitive_difference_unique)
  have "solution = (xd 0 + x_star 0, xd tf + x_star tf, F tf - F 0)"
    by (simp add: solution_explicit xd F)
  moreover have "(\<lambda>n. riemann_sum (\<lambda>t. ((x_star t)\<^sup>2 + (xd t + x_star t)\<^sup>2) / 2) 0 tf n)
           \<longlonglongrightarrow> F tf - F 0"
    unfolding xd F by (rule cost_riemann_limit)
  ultimately show ?thesis by (rule conjI)
qed

theorem solution_closed_form_witness:
  "(\<forall>t. (x_star has_real_derivative x_star_dot t) (at t)) \<and>
   (\<forall>t. (cost_primitive has_real_derivative ((x_star t)\<^sup>2 + (x_star_dot t + x_star t)\<^sup>2) / 2) (at t)) \<and>
   solution = (x_star_dot 0 + x_star 0, x_star_dot tf + x_star tf, cost_primitive tf - cost_primitive 0) \<and>
   (\<lambda>n. riemann_sum (\<lambda>t. ((x_star t)\<^sup>2 + (x_star_dot t + x_star t)\<^sup>2) / 2) 0 tf n)
     \<longlonglongrightarrow> cost_primitive tf - cost_primitive 0"
proof -
  have a: "\<forall>t. (x_star has_real_derivative x_star_dot t) (at t)"
    by (simp add: x_star_deriv)
  have b: "\<forall>t. (cost_primitive has_real_derivative ((x_star t)\<^sup>2 + (x_star_dot t + x_star t)\<^sup>2) / 2) (at t)"
    by (simp only: cost_primitive_deriv simp_thms)
  show ?thesis using a b solution_closed_form [OF a b] by blast
qed

section \<open>The parts of the table of contents\<close>

text \<open>
  C7, as the file has it. The table of contents groups its entries into seven parts whose
  captions are, in this order, Installation, Getting Started, Examples and Tutorials,
  Feature Reference, Frequently Asked Questions, Dymos API Reference and Contributing; every
  part is a caption with chapters, and every entry is a file reference, a chapter possibly
  with a list of sections that are file references.
\<close>

theorem toc_parts_captions:
  "toc_captions =
     [''Installation'', ''Getting Started'', ''Examples and Tutorials'', ''Feature Reference'',
      ''Frequently Asked Questions'', ''Dymos API Reference'', ''Contributing''] \<and>
   list_all is_part toc_parts"
  by (simp add: toc_captions_def toc_parts_def toc_def)

text \<open>
  The captions are not the list Installation, Getting Started, Examples and Tutorials,
  Feature Reference, FAQ, API Reference, Contributing: the fifth and the sixth differ.
\<close>

theorem toc_captions_counterexample:
  "toc_captions \<noteq>
     [''Installation'', ''Getting Started'', ''Examples and Tutorials'', ''Feature Reference'',
      ''FAQ'', ''API Reference'', ''Contributing'']"
  by (simp add: toc_captions_def toc_parts_def toc_def)

end
